theory Spec2Isabelle
  imports Main "HOL-Library.Word"
begin

section \<open>Image buffers\<close>

text \<open>
  The script \<^verbatim>\<open>scripts/make_glyphs.py\<close> works on images of the imaging library after
  \<^verbatim>\<open>img.convert('RGBA')\<close>: a grid of pixels with four 8-bit channels, handled as one flat
  row-major sequence. The buffer stores bytes; \<^verbatim>\<open>getdata\<close> hands the channels to Python as
  unbounded integers, and the comparisons of the script are made on those integers.
\<close>

type_synonym u8 = "8 word"

type_synonym pixel = "u8 \<times> u8 \<times> u8 \<times> u8"

type_synonym py_pixel = "int \<times> int \<times> int \<times> int"

record image =
  width :: nat
  height :: nat
  pixels :: "pixel list"

text \<open>The alpha channel of a stored pixel.\<close>

fun alpha :: "pixel \<Rightarrow> u8" where
  "alpha (r, g, b, a) = a"

subsection \<open>The library calls the passes make\<close>

text \<open>
  \<^verbatim>\<open>img.convert('RGBA')\<close> returns a new image of the same size in the four-channel
  representation. The decoding of other modes belongs to the library; the model starts
  from the four-channel buffer, on which the conversion is a copy. Values are immutable
  here, so the copy is the image itself, and the caller's image is never changed by the
  later \<^verbatim>\<open>putdata\<close>.
\<close>

definition convert_RGBA :: "image \<Rightarrow> image" where
  "convert_RGBA img = img"

text \<open>\<^verbatim>\<open>img.getdata()\<close>: the pixels in order, each a tuple of Python integers.\<close>

definition getdata :: "image \<Rightarrow> py_pixel list" where
  "getdata img = map (\<lambda>(r, g, b, a). (uint r, uint g, uint b, uint a)) (pixels img)"

text \<open>
  \<^verbatim>\<open>img.putdata(out)\<close> stores a sequence of tuples from the upper left corner on. A
  channel value is clipped into a byte when stored. A sequence shorter than the buffer
  leaves the remaining pixels as they were; the library rejects a longer one, which the
  passes never produce (they write exactly one tuple per tuple read), so the model cuts
  it at the size of the buffer.
\<close>

definition clip8 :: "int \<Rightarrow> u8" where
  "clip8 v = (if v \<le> 0 then 0 else if 255 \<le> v then 255 else word_of_int v)"

definition store_pixel :: "py_pixel \<Rightarrow> pixel" where
  "store_pixel p = (case p of (r, g, b, a) \<Rightarrow> (clip8 r, clip8 g, clip8 b, clip8 a))"

definition putdata :: "image \<Rightarrow> py_pixel list \<Rightarrow> image" where
  "putdata img out =
     img\<lparr>pixels := take (length (pixels img))
                       (map store_pixel out @ drop (length out) (pixels img))\<rparr>"

section \<open>The background-removal pass\<close>

text \<open>
  The loop of \<^verbatim>\<open>remove_background_to_alpha\<close> (lines 14 to 18), with the list \<^verbatim>\<open>out\<close>
  it appends to as an accumulator:
  \<^verbatim>\<open>
    for (r,g,b,a) in datas:
        if abs(r-br) <= tol and abs(g-bg_) <= tol and abs(b-bb) <= tol and a != 0:
            out.append((r,g,b,0))
        else:
            out.append((r,g,b,a))
  \<close>
\<close>

fun remove_background_loop ::
  "int \<Rightarrow> int \<Rightarrow> int \<Rightarrow> int \<Rightarrow> py_pixel list \<Rightarrow> py_pixel list \<Rightarrow> py_pixel list" where
  "remove_background_loop br bg' bb tol [] out = out"
| "remove_background_loop br bg' bb tol ((r, g, b, a) # datas) out =
     (if \<bar>r - br\<bar> \<le> tol \<and> \<bar>g - bg'\<bar> \<le> tol \<and> \<bar>b - bb\<bar> \<le> tol \<and> a \<noteq> 0
      then remove_background_loop br bg' bb tol datas (out @ [(r, g, b, 0)])
      else remove_background_loop br bg' bb tol datas (out @ [(r, g, b, a)]))"

definition remove_background_to_alpha :: "image \<Rightarrow> int \<times> int \<times> int \<Rightarrow> int \<Rightarrow> image" where
  "remove_background_to_alpha img0 bg tol =
     (let img = convert_RGBA img0;
          datas = getdata img
      in case bg of (br, bg', bb) \<Rightarrow>
           let out = remove_background_loop br bg' bb tol datas []
           in putdata img out)"

text \<open>The default arguments of the definition: \<^verbatim>\<open>bg=(255,255,255), tol=12\<close>.\<close>

definition default_bg :: "int \<times> int \<times> int" where
  "default_bg = (255, 255, 255)"

definition default_tol :: int where
  "default_tol = 12"

section \<open>The silhouette pass\<close>

text \<open>
  The loop of \<^verbatim>\<open>to_white_silhouette\<close> (lines 26 to 30):
  \<^verbatim>\<open>
    for r,g,b,a in datas:
        if a == 0:
            out.append((255,255,255,0))
        else:
            out.append((255,255,255,255))
  \<close>
\<close>

fun white_silhouette_loop :: "py_pixel list \<Rightarrow> py_pixel list \<Rightarrow> py_pixel list" where
  "white_silhouette_loop [] out = out"
| "white_silhouette_loop ((r, g, b, a) # datas) out =
     (if a = 0
      then white_silhouette_loop datas (out @ [(255, 255, 255, 0)])
      else white_silhouette_loop datas (out @ [(255, 255, 255, 255)]))"

definition to_white_silhouette :: "image \<Rightarrow> image" where
  "to_white_silhouette img0 =
     (let img = convert_RGBA img0;
          datas = getdata img;
          out = white_silhouette_loop datas []
      in putdata img out)"

section \<open>The driver\<close>

text \<open>
  What \<^verbatim>\<open>main\<close> touches outside the process: the files it reads and writes and the
  lines it prints. A path holds an image the library can decode (given in its
  four-channel form) or something it cannot; a path may refuse to be written. The trace
  records the calls in order.
\<close>

datatype file_content = ImageFile image | OtherFile

datatype event = Stdout string | Opened string | Saved string

datatype outcome = Returned | SystemExit int | OpenError string | SaveError string

record world =
  files :: "string \<Rightarrow> file_content option"
  writable :: "string \<Rightarrow> bool"
  trace :: "event list"

text \<open>
  The status the process ends with: 0 when \<^verbatim>\<open>main\<close> returns, the argument of
  \<^verbatim>\<open>sys.exit\<close>, and 1 for an exception nobody catches.
\<close>

fun exit_status :: "outcome \<Rightarrow> int" where
  "exit_status Returned = 0"
| "exit_status (SystemExit n) = n"
| "exit_status (OpenError p) = 1"
| "exit_status (SaveError p) = 1"

definition print :: "string \<Rightarrow> world \<Rightarrow> world" where
  "print s w = w\<lparr>trace := trace w @ [Stdout s]\<rparr>"

definition Image_open :: "string \<Rightarrow> world \<Rightarrow> (outcome + image) \<times> world" where
  "Image_open p w =
     (case files w p of
        Some (ImageFile img) \<Rightarrow> (Inr img, w\<lparr>trace := trace w @ [Opened p]\<rparr>)
      | Some OtherFile \<Rightarrow> (Inl (OpenError p), w)
      | None \<Rightarrow> (Inl (OpenError p), w))"

definition Image_save :: "image \<Rightarrow> string \<Rightarrow> world \<Rightarrow> (outcome + unit) \<times> world" where
  "Image_save img p w =
     (if writable w p
      then (Inr (), w\<lparr>files := (files w)(p \<mapsto> ImageFile img), trace := trace w @ [Saved p]\<rparr>)
      else (Inl (SaveError p), w))"

text \<open>\<^verbatim>\<open>os.path.dirname\<close> and \<^verbatim>\<open>os.path.join\<close> for POSIX paths.\<close>

definition rstrip_sep :: "string \<Rightarrow> string" where
  "rstrip_sep s = rev (dropWhile (\<lambda>c. c = CHR ''/'') (rev s))"

definition dirname :: "string \<Rightarrow> string" where
  "dirname p =
     (let head = rev (dropWhile (\<lambda>c. c \<noteq> CHR ''/'') (rev p))
      in if head \<noteq> [] \<and> filter (\<lambda>c. c \<noteq> CHR ''/'') head \<noteq> [] then rstrip_sep head else head)"

definition path_join :: "string \<Rightarrow> string \<Rightarrow> string" where
  "path_join a b =
     (if b \<noteq> [] \<and> hd b = CHR ''/'' then b
      else if a = [] \<or> last a = CHR ''/'' then a @ b
      else a @ ''/'' @ b)"

text \<open>
  \<^verbatim>\<open>main\<close> (lines 34 to 48), on the argument vector \<^verbatim>\<open>sys.argv\<close>. The index
  \<^verbatim>\<open>sys.argv[1]\<close> is only read past the length check.
\<close>

definition main :: "string list \<Rightarrow> world \<Rightarrow> outcome \<times> world" where
  "main argv w =
     (if length argv < 2
      then (SystemExit 1, print ''usage: make_glyphs.py <source_icon>'' w)
      else
        (let src = argv ! 1;
             out_dir = dirname src
         in (case Image_open src w of
               (Inl e, w1) \<Rightarrow> (e, w1)
             | (Inr base, w1) \<Rightarrow>
                 (let glyph = remove_background_to_alpha base default_bg default_tol
                  in (case Image_save glyph (path_join out_dir ''icon-glyph.png'') w1 of
                        (Inl e, w2) \<Rightarrow> (e, w2)
                      | (Inr u, w2) \<Rightarrow>
                          (let white = to_white_silhouette glyph
                           in (case Image_save white
                                      (path_join out_dir ''icon-glyph-white.png'') w2 of
                                 (Inl e, w3) \<Rightarrow> (e, w3)
                               | (Inr u', w3) \<Rightarrow> (Returned, w3))))))))"

section \<open>One iteration on a stored pixel\<close>

text \<open>
  What one turn of each loop does to the pixel it reads, written on the stored bytes.
  The lemmas below show that a whole pass is the pointwise application of these.
\<close>

definition remove_background_pixel :: "int \<Rightarrow> int \<Rightarrow> int \<Rightarrow> int \<Rightarrow> pixel \<Rightarrow> pixel" where
  "remove_background_pixel br bg' bb tol p =
     (case p of (r, g, b, a) \<Rightarrow>
        if \<bar>uint r - br\<bar> \<le> tol \<and> \<bar>uint g - bg'\<bar> \<le> tol \<and> \<bar>uint b - bb\<bar> \<le> tol \<and> a \<noteq> 0
        then (r, g, b, 0) else (r, g, b, a))"

definition white_silhouette_pixel :: "pixel \<Rightarrow> pixel" where
  "white_silhouette_pixel p =
     (case p of (r, g, b, a) \<Rightarrow> if a = 0 then (255, 255, 255, 0) else (255, 255, 255, 255))"

section \<open>Example inputs\<close>

text \<open>
  A 2 by 1 icon with one white and one coloured opaque pixel, its glyph, an image with
  the alpha channel of the glyph and other colours, a 1 by 1 image that is near white and
  already transparent, and a file system holding the icon.
\<close>

definition example_icon :: image where
  "example_icon = \<lparr>width = 2, height = 1, pixels = [(255, 255, 255, 255), (10, 20, 30, 255)]\<rparr>"

definition example_glyph :: image where
  "example_glyph = \<lparr>width = 2, height = 1, pixels = [(255, 255, 255, 0), (10, 20, 30, 255)]\<rparr>"

definition example_recoloured :: image where
  "example_recoloured = \<lparr>width = 2, height = 1, pixels = [(1, 2, 3, 0), (200, 100, 50, 255)]\<rparr>"

definition example_transparent :: image where
  "example_transparent = \<lparr>width = 1, height = 1, pixels = [(250, 250, 250, 0)]\<rparr>"

definition example_world :: world where
  "example_world =
     \<lparr>files = [''art/icon.png'' \<mapsto> ImageFile example_icon],
      writable = (\<lambda>p. True),
      trace = []\<rparr>"

section \<open>The passes as pointwise maps\<close>

text \<open>A byte read by \<^verbatim>\<open>getdata\<close> and stored again is the same byte.\<close>

lemma clip8_uint: "clip8 (uint (x :: u8)) = x"
proof -
  have "uint x < 256" using uint_lt2p [of x] by simp
  moreover have "0 \<le> uint x" by simp
  ultimately show ?thesis
    by (auto simp: clip8_def word_eq_iff_unsigned [where ?'a = int])
qed

lemma clip8_consts: "clip8 0 = 0" "clip8 255 = 255"
  by (simp_all add: clip8_def)

lemma putdata_same_length:
  "length out = length (pixels img) \<Longrightarrow> putdata img out = img\<lparr>pixels := map store_pixel out\<rparr>"
  by (simp add: putdata_def)

subsection \<open>Background removal\<close>

text \<open>
  The accumulator only ever grows at its end, so the loop from any accumulator is the
  accumulator followed by the loop from the empty list.
\<close>

lemma remove_background_loop_append:
  "remove_background_loop br bg' bb tol datas out =
     out @ remove_background_loop br bg' bb tol datas []"
proof (induction datas arbitrary: out)
  case Nil
  show ?case by simp
next
  case (Cons p datas)
  obtain r g b a where p: "p = (r, g, b, a)" by (cases p)
  show ?case
    unfolding p
    by (simp add: Cons.IH [of "out @ [(r, g, b, 0)]"] Cons.IH [of "out @ [(r, g, b, a)]"]
        Cons.IH [of "[(r, g, b, 0)]"] Cons.IH [of "[(r, g, b, a)]"])
qed

lemma length_remove_background_loop:
  "length (remove_background_loop br bg' bb tol datas out) = length out + length datas"
  by (induction datas arbitrary: out) (auto)

lemma store_remove_background_loop:
  "map store_pixel (remove_background_loop br bg' bb tol
      (map (\<lambda>(r, g, b, a). (uint r, uint g, uint b, uint a)) ps) []) =
   map (remove_background_pixel br bg' bb tol) ps"
proof (induction ps)
  case Nil
  show ?case by simp
next
  case (Cons p ps)
  obtain r g b a :: u8 where p: "p = (r, g, b, a)" by (cases p)
  have ne: "(uint a \<noteq> 0) = (a \<noteq> 0)" by (simp add: uint_0_iff)
  show ?case
    unfolding p
    apply (simp add: ne)
    apply (subst remove_background_loop_append)
    apply (subst (2) remove_background_loop_append)
    apply (simp add: Cons.IH store_pixel_def remove_background_pixel_def clip8_uint clip8_consts)
    done
qed

lemma remove_background_to_alpha_eq:
  "remove_background_to_alpha img (br, bg', bb) tol =
     img\<lparr>pixels := map (remove_background_pixel br bg' bb tol) (pixels img)\<rparr>"
  by (simp add: remove_background_to_alpha_def convert_RGBA_def getdata_def
      putdata_same_length length_remove_background_loop store_remove_background_loop)

lemma remove_background_pixel_idem:
  "remove_background_pixel br bg' bb tol (remove_background_pixel br bg' bb tol p) =
     remove_background_pixel br bg' bb tol p"
  by (cases p) (simp add: remove_background_pixel_def)

subsection \<open>Silhouette\<close>

lemma white_silhouette_loop_append:
  "white_silhouette_loop datas out = out @ white_silhouette_loop datas []"
proof (induction datas arbitrary: out)
  case Nil
  show ?case by simp
next
  case (Cons p datas)
  obtain r g b a where p: "p = (r, g, b, a)" by (cases p)
  show ?case
    unfolding p
    by (simp add: Cons.IH [of "out @ [(255, 255, 255, 0)]"]
        Cons.IH [of "out @ [(255, 255, 255, 255)]"]
        Cons.IH [of "[(255, 255, 255, 0)]"] Cons.IH [of "[(255, 255, 255, 255)]"])
qed

lemma length_white_silhouette_loop:
  "length (white_silhouette_loop datas out) = length out + length datas"
  by (induction datas arbitrary: out) auto

lemma store_white_silhouette_loop:
  "map store_pixel (white_silhouette_loop
      (map (\<lambda>(r, g, b, a). (uint r, uint g, uint b, uint a)) ps) []) =
   map white_silhouette_pixel ps"
proof (induction ps)
  case Nil
  show ?case by simp
next
  case (Cons p ps)
  obtain r g b a :: u8 where p: "p = (r, g, b, a)" by (cases p)
  have z: "(uint a = 0) = (a = 0)" by (simp add: uint_0_iff)
  show ?case
    unfolding p
    apply (simp add: z)
    apply (subst white_silhouette_loop_append)
    apply (subst (2) white_silhouette_loop_append)
    apply (simp add: Cons.IH store_pixel_def white_silhouette_pixel_def clip8_consts)
    done
qed

lemma to_white_silhouette_eq:
  "to_white_silhouette img = img\<lparr>pixels := map white_silhouette_pixel (pixels img)\<rparr>"
  by (simp add: to_white_silhouette_def convert_RGBA_def getdata_def
      putdata_same_length length_white_silhouette_loop store_white_silhouette_loop)

lemma white_silhouette_pixel_idem:
  "white_silhouette_pixel (white_silhouette_pixel p) = white_silhouette_pixel p"
  by (cases p) (simp add: white_silhouette_pixel_def)

lemma white_silhouette_pixel_alpha:
  "alpha p = alpha q \<Longrightarrow> white_silhouette_pixel p = white_silhouette_pixel q"
  by (cases p, cases q) (simp add: white_silhouette_pixel_def)

lemma glyph_alpha_zero_stays:
  assumes "i < length (pixels glyph)" and "alpha (pixels glyph ! i) = 0"
  shows "alpha (pixels (to_white_silhouette glyph) ! i) = 0"
proof -
  obtain r g b a where p: "pixels glyph ! i = (r, g, b, a)" by (cases "pixels glyph ! i")
  from assms(2) have "a = 0" by (simp add: p)
  with assms(1) show ?thesis
    by (simp add: to_white_silhouette_eq p white_silhouette_pixel_def)
qed

subsection \<open>The driver\<close>

text \<open>The two output names never meet, whatever the directory.\<close>

lemma path_join_glyph_distinct:
  "path_join d ''icon-glyph.png'' \<noteq> path_join d ''icon-glyph-white.png''"
  by (simp add: path_join_def)

lemma main_usage:
  "length argv < 2 \<Longrightarrow>
     main argv w = (SystemExit 1, w\<lparr>trace := trace w @ [Stdout ''usage: make_glyphs.py <source_icon>'']\<rparr>)"
  by (simp add: main_def print_def)

text \<open>
  With a source argument that names a decodable image and both output paths writable,
  \<^verbatim>\<open>main\<close> returns, having written the glyph and then its silhouette.
\<close>

lemma main_returns:
  assumes "2 \<le> length argv"
    and "files w (argv ! 1) = Some (ImageFile base)"
    and "writable w (path_join (dirname (argv ! 1)) ''icon-glyph.png'')"
    and "writable w (path_join (dirname (argv ! 1)) ''icon-glyph-white.png'')"
  shows "main argv w =
     (Returned,
      w\<lparr>files := (files w)
           (path_join (dirname (argv ! 1)) ''icon-glyph.png'' \<mapsto>
              ImageFile (remove_background_to_alpha base default_bg default_tol),
            path_join (dirname (argv ! 1)) ''icon-glyph-white.png'' \<mapsto>
              ImageFile (to_white_silhouette
                (remove_background_to_alpha base default_bg default_tol))),
         trace := trace w @
           [Opened (argv ! 1),
            Saved (path_join (dirname (argv ! 1)) ''icon-glyph.png''),
            Saved (path_join (dirname (argv ! 1)) ''icon-glyph-white.png'')]\<rparr>)"
  using assms by (simp add: main_def Image_open_def Image_save_def Let_def)

section \<open>The properties of the specification\<close>

text \<open>
  Claim C1. With the default background (255,255,255) and tolerance 12, the
  background-removal pass returns a buffer of the same width, height and pixel count, in
  which every pixel whose red, green and blue are each within 12 of 255 and whose alpha is
  not 0 has alpha 0 and its red, green and blue as in the input.
\<close>

theorem remove_background_near_white:
  assumes "i < length (pixels img)"
    and "pixels img ! i = (r, g, b, a)"
    and "\<bar>uint r - 255\<bar> \<le> 12" and "\<bar>uint g - 255\<bar> \<le> 12" and "\<bar>uint b - 255\<bar> \<le> 12"
    and "a \<noteq> 0"
  shows "width (remove_background_to_alpha img default_bg default_tol) = width img \<and>
         height (remove_background_to_alpha img default_bg default_tol) = height img \<and>
         length (pixels (remove_background_to_alpha img default_bg default_tol)) =
           length (pixels img) \<and>
         pixels (remove_background_to_alpha img default_bg default_tol) ! i = (r, g, b, 0)"
  using assms
  by (simp add: default_bg_def default_tol_def remove_background_to_alpha_eq
      remove_background_pixel_def)

theorem remove_background_near_white_witness:
  "(0::nat) < length (pixels example_icon) \<and>
   pixels example_icon ! 0 = (255, 255, 255, 255) \<and>
   \<bar>uint (255 :: u8) - 255\<bar> \<le> 12 \<and> (255 :: u8) \<noteq> 0 \<and>
   width (remove_background_to_alpha example_icon default_bg default_tol) = 2 \<and>
   height (remove_background_to_alpha example_icon default_bg default_tol) = 1 \<and>
   length (pixels (remove_background_to_alpha example_icon default_bg default_tol)) = 2 \<and>
   pixels (remove_background_to_alpha example_icon default_bg default_tol) ! 0 =
     (255, 255, 255, 0)"
  using remove_background_near_white [of 0 example_icon 255 255 255 255]
  by (simp add: example_icon_def)

text \<open>
  Claim C2. A pixel that is not classified (some colour channel differs from 255 by more
  than 12, or its alpha is already 0) comes out of the background-removal pass exactly as
  it went in, colour and alpha.
\<close>

theorem remove_background_passthrough:
  assumes "i < length (pixels img)"
    and "pixels img ! i = (r, g, b, a)"
    and "12 < \<bar>uint r - 255\<bar> \<or> 12 < \<bar>uint g - 255\<bar> \<or> 12 < \<bar>uint b - 255\<bar> \<or> a = 0"
  shows "pixels (remove_background_to_alpha img default_bg default_tol) ! i = (r, g, b, a)"
  using assms
  by (auto simp add: default_bg_def default_tol_def remove_background_to_alpha_eq
      remove_background_pixel_def)

theorem remove_background_passthrough_witness:
  "(1::nat) < length (pixels example_icon) \<and>
   pixels example_icon ! 1 = (10, 20, 30, 255) \<and>
   12 < \<bar>uint (10 :: u8) - 255\<bar> \<and>
   pixels (remove_background_to_alpha example_icon default_bg default_tol) ! 1 =
     (10, 20, 30, 255) \<and>
   (0::nat) < length (pixels example_transparent) \<and>
   pixels example_transparent ! 0 = (250, 250, 250, 0) \<and>
   pixels (remove_background_to_alpha example_transparent default_bg default_tol) ! 0 =
     (250, 250, 250, 0)"
  using remove_background_passthrough [of 1 example_icon 10 20 30 255]
    remove_background_passthrough [of 0 example_transparent 250 250 250 0]
  by (simp add: example_icon_def example_transparent_def)

text \<open>
  Claim C3. The silhouette pass maps a pixel with alpha 0 to (255,255,255,0) and a pixel
  with any other alpha to (255,255,255,255); so every pixel of its output is one of
  these two values.
\<close>

theorem silhouette_two_values:
  assumes "i < length (pixels img)"
  shows "(alpha (pixels img ! i) = 0 \<longrightarrow>
            pixels (to_white_silhouette img) ! i = (255, 255, 255, 0)) \<and>
         (alpha (pixels img ! i) \<noteq> 0 \<longrightarrow>
            pixels (to_white_silhouette img) ! i = (255, 255, 255, 255)) \<and>
         set (pixels (to_white_silhouette img)) \<subseteq> {(255, 255, 255, 0), (255, 255, 255, 255)}"
proof -
  obtain r g b a where p: "pixels img ! i = (r, g, b, a)" by (cases "pixels img ! i")
  have "pixels (to_white_silhouette img) ! i = white_silhouette_pixel (pixels img ! i)"
    using assms by (simp add: to_white_silhouette_eq)
  then have pointwise:
    "(alpha (pixels img ! i) = 0 \<longrightarrow> pixels (to_white_silhouette img) ! i = (255, 255, 255, 0)) \<and>
     (alpha (pixels img ! i) \<noteq> 0 \<longrightarrow> pixels (to_white_silhouette img) ! i = (255, 255, 255, 255))"
    by (simp add: p white_silhouette_pixel_def)
  have "set (pixels (to_white_silhouette img)) \<subseteq> {(255, 255, 255, 0), (255, 255, 255, 255)}"
  proof (rule subsetI)
    fix x
    assume "x \<in> set (pixels (to_white_silhouette img))"
    then obtain q where x: "x = white_silhouette_pixel q"
      by (auto simp add: to_white_silhouette_eq)
    show "x \<in> {(255, 255, 255, 0), (255, 255, 255, 255)}"
      unfolding x by (cases q) (simp add: white_silhouette_pixel_def)
  qed
  with pointwise show ?thesis by blast
qed

theorem silhouette_two_values_witness:
  "(0::nat) < length (pixels example_glyph) \<and> (1::nat) < length (pixels example_glyph) \<and>
   alpha (pixels example_glyph ! 0) = 0 \<and> alpha (pixels example_glyph ! 1) \<noteq> 0 \<and>
   pixels (to_white_silhouette example_glyph) ! 0 = (255, 255, 255, 0) \<and>
   pixels (to_white_silhouette example_glyph) ! 1 = (255, 255, 255, 255) \<and>
   set (pixels (to_white_silhouette example_glyph)) \<subseteq> {(255, 255, 255, 0), (255, 255, 255, 255)}"
  using silhouette_two_values [of 0 example_glyph] silhouette_two_values [of 1 example_glyph]
  by (simp add: example_glyph_def)

text \<open>
  Claim C4. Run without a source path (an argument vector shorter than 2), the driver
  prints the usage line on standard output and exits with status 1; nothing else
  happens: no image is opened, no file is saved, the files are as before.
\<close>

theorem main_without_argument:
  assumes "length argv < 2"
  shows "fst (main argv w) = SystemExit 1 \<and>
         exit_status (fst (main argv w)) = 1 \<and>
         trace (snd (main argv w)) = trace w @ [Stdout ''usage: make_glyphs.py <source_icon>''] \<and>
         files (snd (main argv w)) = files w"
  using assms by (simp add: main_usage)

theorem main_without_argument_witness:
  "length [''make_glyphs.py''] < 2 \<and>
   fst (main [''make_glyphs.py''] example_world) = SystemExit 1 \<and>
   exit_status (fst (main [''make_glyphs.py''] example_world)) = 1 \<and>
   trace (snd (main [''make_glyphs.py''] example_world)) =
     [Stdout ''usage: make_glyphs.py <source_icon>''] \<and>
   files (snd (main [''make_glyphs.py''] example_world)) = files example_world"
  using main_without_argument [of "[''make_glyphs.py'']" example_world]
  by (simp add: example_world_def)

text \<open>
  Claim C5. Both passes keep the width, the height and the number of pixels of their
  input, for every input buffer (and, for the first pass, every background and
  tolerance).
\<close>

theorem passes_preserve_dimensions:
  "width (remove_background_to_alpha img bg tol) = width img \<and>
   height (remove_background_to_alpha img bg tol) = height img \<and>
   length (pixels (remove_background_to_alpha img bg tol)) = length (pixels img) \<and>
   width (to_white_silhouette img) = width img \<and>
   height (to_white_silhouette img) = height img \<and>
   length (pixels (to_white_silhouette img)) = length (pixels img)"
  by (cases bg) (simp add: remove_background_to_alpha_eq to_white_silhouette_eq)

theorem passes_preserve_dimensions_witness:
  "width (remove_background_to_alpha example_icon default_bg default_tol) = 2 \<and>
   height (remove_background_to_alpha example_icon default_bg default_tol) = 1 \<and>
   length (pixels (remove_background_to_alpha example_icon default_bg default_tol)) = 2 \<and>
   width (to_white_silhouette example_icon) = 2 \<and>
   height (to_white_silhouette example_icon) = 1 \<and>
   length (pixels (to_white_silhouette example_icon)) = 2"
  using passes_preserve_dimensions [of example_icon default_bg default_tol]
  by (simp add: example_icon_def)

text \<open>
  Claim C6. The silhouette pass is idempotent: applied twice it gives the same image as
  applied once.
\<close>

theorem silhouette_idempotent:
  "to_white_silhouette (to_white_silhouette img) = to_white_silhouette img"
  by (simp add: to_white_silhouette_eq white_silhouette_pixel_idem)

theorem silhouette_idempotent_witness:
  "to_white_silhouette (to_white_silhouette example_icon) =
     \<lparr>width = 2, height = 1, pixels = [(255, 255, 255, 255), (255, 255, 255, 255)]\<rparr>"
  using silhouette_idempotent [of example_icon]
  by (simp add: example_icon_def to_white_silhouette_eq white_silhouette_pixel_def)

text \<open>
  Claim C7. The silhouette pass reads the alpha channel only: two images of the same
  dimensions whose pixels agree on alpha at every position, whatever their colours, have
  the same silhouette.
\<close>

theorem silhouette_depends_on_alpha_only:
  assumes "width img1 = width img2" and "height img1 = height img2"
    and "length (pixels img1) = length (pixels img2)"
    and "\<forall>i < length (pixels img1). alpha (pixels img1 ! i) = alpha (pixels img2 ! i)"
  shows "to_white_silhouette img1 = to_white_silhouette img2"
proof -
  have "map white_silhouette_pixel (pixels img1) = map white_silhouette_pixel (pixels img2)"
    using assms(3,4) by (auto simp add: list_eq_iff_nth_eq intro: white_silhouette_pixel_alpha)
  with assms(1,2) show ?thesis
    by (simp add: to_white_silhouette_eq image.equality)
qed

theorem silhouette_depends_on_alpha_only_witness:
  "width example_glyph = width example_recoloured \<and>
   height example_glyph = height example_recoloured \<and>
   length (pixels example_glyph) = length (pixels example_recoloured) \<and>
   alpha (pixels example_glyph ! 0) = alpha (pixels example_recoloured ! 0) \<and>
   alpha (pixels example_glyph ! 1) = alpha (pixels example_recoloured ! 1) \<and>
   pixels example_glyph \<noteq> pixels example_recoloured \<and>
   to_white_silhouette example_glyph = to_white_silhouette example_recoloured"
proof -
  have hyp: "\<forall>i < length (pixels example_glyph).
      alpha (pixels example_glyph ! i) = alpha (pixels example_recoloured ! i)"
    by (simp add: example_glyph_def example_recoloured_def less_Suc_eq)
  have "to_white_silhouette example_glyph = to_white_silhouette example_recoloured"
    by (rule silhouette_depends_on_alpha_only [OF _ _ _ hyp])
      (simp_all add: example_glyph_def example_recoloured_def)
  then show ?thesis
    by (simp add: example_glyph_def example_recoloured_def)
qed

text \<open>
  Claim C8. In a run of the driver that is given a decodable source and writable output
  paths, the run returns, the glyph written is the result of the background-removal pass
  and the silhouette written is the result of the silhouette pass on that glyph; at every
  position where the glyph has alpha 0 the silhouette has alpha 0 too, so no later pass
  brings back a nonzero alpha.
\<close>

theorem pipeline_never_restores_alpha:
  assumes "2 \<le> length argv"
    and "files w (argv ! 1) = Some (ImageFile base)"
    and "writable w (path_join (dirname (argv ! 1)) ''icon-glyph.png'')"
    and "writable w (path_join (dirname (argv ! 1)) ''icon-glyph-white.png'')"
    and "glyph = remove_background_to_alpha base default_bg default_tol"
    and "i < length (pixels glyph)"
    and "alpha (pixels glyph ! i) = 0"
  shows "fst (main argv w) = Returned \<and>
         files (snd (main argv w)) (path_join (dirname (argv ! 1)) ''icon-glyph.png'') =
           Some (ImageFile glyph) \<and>
         files (snd (main argv w)) (path_join (dirname (argv ! 1)) ''icon-glyph-white.png'') =
           Some (ImageFile (to_white_silhouette glyph)) \<and>
         alpha (pixels (to_white_silhouette glyph) ! i) = 0"
proof -
  note run = main_returns [OF assms(1-4)]
  have "alpha (pixels (to_white_silhouette glyph) ! i) = 0"
    using assms(6,7) by (rule glyph_alpha_zero_stays)
  then show ?thesis
    by (simp add: run assms(5) path_join_glyph_distinct)
qed

theorem pipeline_never_restores_alpha_witness:
  "2 \<le> length [''make_glyphs.py'', ''art/icon.png''] \<and>
   files example_world ''art/icon.png'' = Some (ImageFile example_icon) \<and>
   writable example_world ''art/icon-glyph.png'' \<and>
   writable example_world ''art/icon-glyph-white.png'' \<and>
   remove_background_to_alpha example_icon default_bg default_tol = example_glyph \<and>
   (0::nat) < length (pixels example_glyph) \<and>
   alpha (pixels example_glyph ! 0) = 0 \<and>
   fst (main [''make_glyphs.py'', ''art/icon.png''] example_world) = Returned \<and>
   files (snd (main [''make_glyphs.py'', ''art/icon.png''] example_world))
     ''art/icon-glyph.png'' = Some (ImageFile example_glyph) \<and>
   files (snd (main [''make_glyphs.py'', ''art/icon.png''] example_world))
     ''art/icon-glyph-white.png'' = Some (ImageFile (to_white_silhouette example_glyph)) \<and>
   alpha (pixels (to_white_silhouette example_glyph) ! 0) = 0"
proof -
  have glyph: "example_glyph = remove_background_to_alpha example_icon default_bg default_tol"
    by (simp add: example_glyph_def example_icon_def default_bg_def default_tol_def
        remove_background_to_alpha_eq remove_background_pixel_def)
  have paths: "path_join (dirname ''art/icon.png'') ''icon-glyph.png'' = ''art/icon-glyph.png''"
    "path_join (dirname ''art/icon.png'') ''icon-glyph-white.png'' = ''art/icon-glyph-white.png''"
    by (simp_all add: path_join_def dirname_def rstrip_sep_def)
  have pre: "files example_world ''art/icon.png'' = Some (ImageFile example_icon)"
    "writable example_world ''art/icon-glyph.png''"
    "writable example_world ''art/icon-glyph-white.png''"
    by (simp_all add: example_world_def)
  have idx: "(0::nat) < length (pixels example_glyph)" "alpha (pixels example_glyph ! 0) = 0"
    by (simp_all add: example_glyph_def)
  from pipeline_never_restores_alpha
    [of "[''make_glyphs.py'', ''art/icon.png'']" example_world example_icon example_glyph 0]
  show ?thesis
    using glyph pre idx by (simp add: paths)
qed

text \<open>
  Claim C9. The background-removal pass is idempotent for every background colour and
  tolerance: a pixel it changes ends with alpha 0 and is then left alone, and a pixel it
  leaves alone is left alone again.
\<close>

theorem remove_background_idempotent:
  "remove_background_to_alpha (remove_background_to_alpha img bg tol) bg tol =
     remove_background_to_alpha img bg tol"
  by (cases bg) (simp add: remove_background_to_alpha_eq remove_background_pixel_idem)

theorem remove_background_idempotent_witness:
  "remove_background_to_alpha
     (remove_background_to_alpha example_icon default_bg default_tol) default_bg default_tol =
   example_glyph"
  using remove_background_idempotent [of example_icon default_bg default_tol]
  by (simp add: example_icon_def example_glyph_def default_bg_def default_tol_def
      remove_background_to_alpha_eq remove_background_pixel_def)

text \<open>
  Claim C10. End to end: in a run of the driver that is given a decodable source and
  writable output paths, the silhouette file has as many pixels as the source, and its
  pixel at a position is (255,255,255,255) exactly when the source pixel there has a
  nonzero alpha and some colour channel further than 12 from 255; otherwise it is
  (255,255,255,0).
\<close>

theorem pipeline_pixel_characterisation:
  assumes "2 \<le> length argv"
    and "files w (argv ! 1) = Some (ImageFile base)"
    and "writable w (path_join (dirname (argv ! 1)) ''icon-glyph.png'')"
    and "writable w (path_join (dirname (argv ! 1)) ''icon-glyph-white.png'')"
    and "white = to_white_silhouette (remove_background_to_alpha base default_bg default_tol)"
    and "i < length (pixels base)"
    and "pixels base ! i = (r, g, b, a)"
  shows "fst (main argv w) = Returned \<and>
         files (snd (main argv w)) (path_join (dirname (argv ! 1)) ''icon-glyph-white.png'') =
           Some (ImageFile white) \<and>
         length (pixels white) = length (pixels base) \<and>
         (pixels white ! i = (255, 255, 255, 255)) =
           (a \<noteq> 0 \<and> (12 < \<bar>uint r - 255\<bar> \<or> 12 < \<bar>uint g - 255\<bar> \<or> 12 < \<bar>uint b - 255\<bar>)) \<and>
         pixels white ! i =
           (if a \<noteq> 0 \<and> (12 < \<bar>uint r - 255\<bar> \<or> 12 < \<bar>uint g - 255\<bar> \<or> 12 < \<bar>uint b - 255\<bar>)
            then (255, 255, 255, 255) else (255, 255, 255, 0))"
proof -
  note run = main_returns [OF assms(1-4)]
  have px: "pixels white ! i =
      white_silhouette_pixel (remove_background_pixel 255 255 255 12 (pixels base ! i))"
    using assms(6)
    by (simp add: assms(5) default_bg_def default_tol_def remove_background_to_alpha_eq
        to_white_silhouette_eq)
  have val: "pixels white ! i =
      (if a \<noteq> 0 \<and> (12 < \<bar>uint r - 255\<bar> \<or> 12 < \<bar>uint g - 255\<bar> \<or> 12 < \<bar>uint b - 255\<bar>)
       then (255, 255, 255, 255) else (255, 255, 255, 0))"
    unfolding px assms(7)
    by (auto simp add: remove_background_pixel_def white_silhouette_pixel_def)
  have len: "length (pixels white) = length (pixels base)"
    by (simp add: assms(5) default_bg_def remove_background_to_alpha_eq to_white_silhouette_eq)
  have iff: "(pixels white ! i = (255, 255, 255, 255)) =
      (a \<noteq> 0 \<and> (12 < \<bar>uint r - 255\<bar> \<or> 12 < \<bar>uint g - 255\<bar> \<or> 12 < \<bar>uint b - 255\<bar>))"
    unfolding val by simp
  have "fst (main argv w) = Returned"
    by (simp add: run)
  moreover have "files (snd (main argv w))
      (path_join (dirname (argv ! 1)) ''icon-glyph-white.png'') = Some (ImageFile white)"
    by (simp add: run assms(5))
  ultimately show ?thesis
    using len iff val by blast
qed

theorem pipeline_pixel_characterisation_witness:
  "2 \<le> length [''make_glyphs.py'', ''art/icon.png''] \<and>
   files example_world ''art/icon.png'' = Some (ImageFile example_icon) \<and>
   writable example_world ''art/icon-glyph.png'' \<and>
   writable example_world ''art/icon-glyph-white.png'' \<and>
   (1::nat) < length (pixels example_icon) \<and>
   pixels example_icon ! 1 = (10, 20, 30, 255) \<and>
   fst (main [''make_glyphs.py'', ''art/icon.png''] example_world) = Returned \<and>
   files (snd (main [''make_glyphs.py'', ''art/icon.png''] example_world))
     ''art/icon-glyph-white.png'' =
     Some (ImageFile \<lparr>width = 2, height = 1,
       pixels = [(255, 255, 255, 0), (255, 255, 255, 255)]\<rparr>)"
proof -
  have white: "\<lparr>width = 2, height = 1, pixels = [(255, 255, 255, 0), (255, 255, 255, 255)]\<rparr> =
      to_white_silhouette (remove_background_to_alpha example_icon default_bg default_tol)"
    by (simp add: example_icon_def default_bg_def default_tol_def
        remove_background_to_alpha_eq remove_background_pixel_def
        to_white_silhouette_eq white_silhouette_pixel_def)
  have paths: "path_join (dirname ''art/icon.png'') ''icon-glyph.png'' = ''art/icon-glyph.png''"
    "path_join (dirname ''art/icon.png'') ''icon-glyph-white.png'' = ''art/icon-glyph-white.png''"
    by (simp_all add: path_join_def dirname_def rstrip_sep_def)
  have pre: "files example_world ''art/icon.png'' = Some (ImageFile example_icon)"
    "writable example_world ''art/icon-glyph.png''"
    "writable example_world ''art/icon-glyph-white.png''"
    by (simp_all add: example_world_def)
  have idx: "(1::nat) < length (pixels example_icon)"
    "pixels example_icon ! 1 = (10, 20, 30, 255)"
    by (simp_all add: example_icon_def)
  from pipeline_pixel_characterisation
    [of "[''make_glyphs.py'', ''art/icon.png'']" example_world example_icon
      "\<lparr>width = 2, height = 1, pixels = [(255, 255, 255, 0), (255, 255, 255, 255)]\<rparr>"
      1 10 20 30 255]
  show ?thesis
    using white pre idx by (simp add: paths)
qed

end
